theory Spec2Isabelle
  imports Complex_Main "HOL-Library.Word"
begin

unbundle bit_operations_syntax

section \<open>The py-scrypt extension modules\<close>

text \<open>
  The repository holds two near-duplicate CPython extension modules, \<^verbatim>\<open>src/scrypt2.c\<close>
  (Python 2) and \<^verbatim>\<open>src/scrypt3.c\<close> (Python 3). Each exports \<^verbatim>\<open>encrypt\<close>,
  \<^verbatim>\<open>decrypt\<close> and \<^verbatim>\<open>hash\<close>, thin wrappers around the scrypt library functions
  \<^verbatim>\<open>scryptenc_buf\<close>, \<^verbatim>\<open>scryptdec_buf\<close> and \<^verbatim>\<open>crypto_scrypt\<close>.

  The embedding follows the C text statement by statement. What a wrapper does besides
  computing a value is made explicit:
  \<^item> the Python error indicator and the sequence of allocator and library calls are a
    state record that every function takes and returns;
  \<^item> the library functions are parameters (a record of functions), since their code is
    not part of the two files;
  \<^item> the bytes of a freshly allocated buffer are a parameter too: C leaves them
    indeterminate;
  \<^item> behaviour that C leaves undefined (signed overflow, a read or write past the end of
    an allocation or of a variable, an index past the end of the message table) is a
    \<open>Fault\<close> result: nothing is claimed about what the machine does then.

  Two facts about the platform decide what the C text means, and both are explicit:
  \<^item> \<^verbatim>\<open>scrypt_hash\<close> parses \<^verbatim>\<open>r\<close> and \<^verbatim>\<open>p\<close> with the format \<^verbatim>\<open>k\<close>, which stores
    an \<^verbatim>\<open>unsigned long\<close>, into \<^verbatim>\<open>uint32_t\<close> variables (the source notes that it
    assumes the two types to be the same). The data model of the machine is a parameter
    of \<^verbatim>\<open>scrypt_hash\<close>; where \<^verbatim>\<open>unsigned long\<close> has 64 bits, a call that passes
    \<^verbatim>\<open>r\<close> or \<^verbatim>\<open>p\<close> stores past the variable and is a \<open>Fault\<close>.
  \<^item> Neither file defines \<^verbatim>\<open>PY_SSIZE_T_CLEAN\<close>. The interpreter is taken to be one
    that accepts this (CPython 2 and CPython 3 before 3.10): every length of a \<^verbatim>\<open>#\<close>
    format is a C \<^verbatim>\<open>int\<close>, in the argument parser and in \<^verbatim>\<open>Py_BuildValue\<close>.

  Not modelled: the release of the interpreter lock around the library call, the
  reference counts taken on the argument objects in \<^verbatim>\<open>scrypt2.c\<close>, and a failing
  \<^verbatim>\<open>PyMem_Malloc\<close> (the source never tests its result; allocation is taken to succeed).
\<close>

subsection \<open>Values, errors and state\<close>

type_synonym byte = "8 word"

text \<open>
  The Python objects a wrapper can return: a byte string (\<^verbatim>\<open>bytes\<close> in Python 3,
  \<^verbatim>\<open>str\<close> in Python 2) or a text string (Python 3 \<^verbatim>\<open>str\<close>, a sequence of code
  points).
\<close>

datatype pyobj = PyBytes "byte list" | PyUnicode "nat list"

text \<open>
  The error indicator. \<open>ScryptError\<close> is the module's exception \<^verbatim>\<open>scrypt.error\<close>,
  with the message it was raised with, if any. \<open>ArgumentError\<close> stands for whatever
  \<^verbatim>\<open>PyArg_ParseTupleAndKeywords\<close> sets when it refuses the arguments.
\<close>

datatype pyerr = ScryptError "string option" | UnicodeDecodeError | ArgumentError

datatype event =
    Malloc nat
  | Free
  | GuardTest
  | Call_scryptenc_buf
  | Call_scryptdec_buf
  | Call_crypto_scrypt "64 word" "32 word" "32 word"

record pystate =
  err :: "pyerr option"
  trace :: "event list"

datatype fault =
    SignedOverflow
  | LengthTruncated
  | TableOutOfRange
  | BufferOverflow
  | BufferOverread
  | StorePastObject

datatype 'a outcome = Normal 'a | Fault fault

text \<open>
  The data models the code can be compiled for, and the width of \<^verbatim>\<open>unsigned long\<close> in
  each. \<^verbatim>\<open>int\<close> and \<^verbatim>\<open>uint32_t\<close> have 32 bits in all of them.
\<close>

datatype data_model = ILP32 | LLP64 | LP64

fun ulong_bits :: "data_model \<Rightarrow> nat" where
  "ulong_bits ILP32 = 32"
| "ulong_bits LLP64 = 32"
| "ulong_bits LP64 = 64"

subsection \<open>The scrypt library, as parameters\<close>

text \<open>
  \<open>scryptenc_buf inbuf passwd maxmem maxmemfrac maxtime\<close> gives the return code and the
  bytes the call wrote to the start of \<^verbatim>\<open>outbuf\<close>; \<open>scryptdec_buf\<close> gives in addition
  the value it stored in \<^verbatim>\<open>*outlen\<close>; \<open>crypto_scrypt passwd salt N r p buflen\<close> gives the
  return code and the bytes written to \<^verbatim>\<open>buf\<close>. The two \<^verbatim>\<open>double\<close> arguments are
  only passed through, never computed with; they are carried as reals. \<open>uninit i\<close> is
  the indeterminate byte found at offset \<open>i\<close> of a fresh allocation.
\<close>

record prims =
  scryptenc_buf :: "byte list \<Rightarrow> byte list \<Rightarrow> 64 word \<Rightarrow> real \<Rightarrow> real \<Rightarrow> int \<times> byte list"
  scryptdec_buf :: "byte list \<Rightarrow> byte list \<Rightarrow> 64 word \<Rightarrow> real \<Rightarrow> real \<Rightarrow> int \<times> byte list \<times> nat"
  crypto_scrypt :: "byte list \<Rightarrow> byte list \<Rightarrow> 64 word \<Rightarrow> 32 word \<Rightarrow> 32 word \<Rightarrow> nat \<Rightarrow> int \<times> byte list"
  uninit :: "nat \<Rightarrow> byte"

subsection \<open>Module constants\<close>

definition g_error_codes :: "string list" where
  "g_error_codes =
    [''success'',
     ''getrlimit or sysctl(hw.usermem) failed'',
     ''clock_getres or clock_gettime failed'',
     ''error computing derived key'',
     ''could not read salt from /dev/urandom'',
     ''error in OpenSSL'',
     ''malloc failed'',
     ''data is not a valid scrypt-encrypted block'',
     ''unrecognized scrypt format'',
     ''decrypting file would take too much memory'',
     ''decrypting file would take too long'',
     ''password is incorrect'',
     ''error writing output file'',
     ''error reading input file'']"

definition g_maxmem_default :: "64 word" where
  "g_maxmem_default = 0"

definition g_maxmemfrac_default :: real where
  "g_maxmemfrac_default = 0.5"

definition g_maxmemfrac_default_enc :: real where
  "g_maxmemfrac_default_enc = 0.125"

definition g_maxtime_default :: real where
  "g_maxtime_default = 300.0"

definition g_maxtime_default_enc :: real where
  "g_maxtime_default_enc = 5.0"

definition hash_params_msg :: string where
  "hash_params_msg =
    ''hash parameters are wrong (r*p should be < 2**30, and N should be a power of two > 1)''"

definition hash_failed_msg :: string where
  "hash_failed_msg = ''could not compute hash''"

definition INT_MAX :: int where
  "INT_MAX = 2 ^ 31 - 1"

text \<open>
  \<^verbatim>\<open>g_error_codes[errorcode]\<close>: the table has 14 entries; an index outside it reads
  past the array.
\<close>

definition error_message :: "int \<Rightarrow> string option" where
  "error_message e = (if 0 \<le> e \<and> e < 14 then Some (g_error_codes ! nat e) else None)"

subsection \<open>The CPython calls the wrappers make\<close>

definition PyMem_Malloc :: "prims \<Rightarrow> nat \<Rightarrow> pystate \<Rightarrow> byte list \<times> pystate" where
  "PyMem_Malloc env n st = (map (uninit env) [0..<n], st\<lparr>trace := trace st @ [Malloc n]\<rparr>)"

definition PyMem_Free :: "pystate \<Rightarrow> pystate" where
  "PyMem_Free st = st\<lparr>trace := trace st @ [Free]\<rparr>"

text \<open>Both are always called with the exception type \<^verbatim>\<open>ScryptError\<close>.\<close>

definition PyErr_Format :: "string \<Rightarrow> pystate \<Rightarrow> pystate" where
  "PyErr_Format msg st = st\<lparr>err := Some (ScryptError (Some msg))\<rparr>"

definition PyErr_SetNone :: "pystate \<Rightarrow> pystate" where
  "PyErr_SetNone st = st\<lparr>err := Some (ScryptError None)\<rparr>"

definition called :: "event \<Rightarrow> pystate \<Rightarrow> pystate" where
  "called e st = st\<lparr>trace := trace st @ [e]\<rparr>"

text \<open>
  The library call writes \<open>out\<close> to the start of the buffer; more bytes than the
  buffer holds is a write past its end.
\<close>

definition store_out :: "byte list \<Rightarrow> byte list \<Rightarrow> byte list outcome" where
  "store_out buf out =
    (if length out \<le> length buf then Normal (out @ drop (length out) buf)
     else Fault BufferOverflow)"

text \<open>
  A \<^verbatim>\<open>size_t\<close> passed where \<^verbatim>\<open>Py_BuildValue\<close> takes an \<^verbatim>\<open>int\<close> from its variable
  arguments: the low 32 bits, read as two's complement.
\<close>

definition va_int :: "nat \<Rightarrow> int" where
  "va_int n =
    (let m = int n mod 2 ^ 32 in if m < 2 ^ 31 then m else m - 2 ^ 32)"

text \<open>\<^verbatim>\<open>strlen\<close> on the buffer: \<open>None\<close> when the buffer holds no zero byte to stop at.\<close>

definition strlen :: "byte list \<Rightarrow> nat option" where
  "strlen buf =
    (if 0 \<in> set buf then Some (length (takeWhile (\<lambda>b. b \<noteq> 0) buf)) else None)"

text \<open>
  The bytes a \<^verbatim>\<open>#\<close> format of \<^verbatim>\<open>Py_BuildValue\<close> copies from the pointer, given the
  length \<open>n\<close> it read: a negative length stands for \<^verbatim>\<open>strlen\<close> of the buffer; a length
  above the size of the buffer reads past its end.
\<close>

definition value_bytes :: "byte list \<Rightarrow> int \<Rightarrow> byte list outcome" where
  "value_bytes buf n =
    (if n < 0 then
       (case strlen buf of
          None \<Rightarrow> Fault BufferOverread
        | Some m \<Rightarrow> Normal (take m buf))
     else if nat n \<le> length buf then Normal (take (nat n) buf)
     else Fault BufferOverread)"

text \<open>
  \<^verbatim>\<open>Py_BuildValue\<close> with the format \<^verbatim>\<open>y#\<close> (Python 3), and with \<^verbatim>\<open>z#\<close> under
  Python 2: a byte string copied from the pointer.
\<close>

definition Py_BuildValue_bytes :: "byte list \<Rightarrow> int \<Rightarrow> pystate \<Rightarrow> (pyobj option \<times> pystate) outcome" where
  "Py_BuildValue_bytes buf n st =
    (case value_bytes buf n of
       Fault f \<Rightarrow> Fault f
     | Normal bs \<Rightarrow> Normal (Some (PyBytes bs), st))"

text \<open>
  Strict UTF-8 decoding, as the Python 3 runtime applies it: shortest forms only, no
  surrogates, nothing above U+10FFFF.
\<close>

definition is_cont :: "byte \<Rightarrow> bool" where
  "is_cont b \<longleftrightarrow> 0x80 \<le> b \<and> b \<le> 0xBF"

definition cont_bits :: "byte \<Rightarrow> nat" where
  "cont_bits b = unat (b AND 0x3F)"

fun utf8_decode :: "byte list \<Rightarrow> nat list option" where
  "utf8_decode [] = Some []"
| "utf8_decode (b0 # bs) =
    (if b0 < 0x80 then map_option ((#) (unat b0)) (utf8_decode bs)
     else if b0 < 0xC2 then None
     else if b0 < 0xE0 then
       (case bs of
          b1 # rest \<Rightarrow>
            if is_cont b1
            then map_option ((#) (unat (b0 AND 0x1F) * 64 + cont_bits b1)) (utf8_decode rest)
            else None
        | _ \<Rightarrow> None)
     else if b0 < 0xF0 then
       (case bs of
          b1 # b2 # rest \<Rightarrow>
            (let cp = unat (b0 AND 0x0F) * 4096 + cont_bits b1 * 64 + cont_bits b2
             in if is_cont b1 \<and> is_cont b2 \<and> 0x800 \<le> cp \<and> (cp < 0xD800 \<or> 0xDFFF < cp)
                then map_option ((#) cp) (utf8_decode rest)
                else None)
        | _ \<Rightarrow> None)
     else if b0 < 0xF5 then
       (case bs of
          b1 # b2 # b3 # rest \<Rightarrow>
            (let cp = unat (b0 AND 0x07) * 262144 + cont_bits b1 * 4096
                      + cont_bits b2 * 64 + cont_bits b3
             in if is_cont b1 \<and> is_cont b2 \<and> is_cont b3 \<and> 0x10000 \<le> cp \<and> cp \<le> 0x10FFFF
                then map_option ((#) cp) (utf8_decode rest)
                else None)
        | _ \<Rightarrow> None)
     else None)"

text \<open>
  \<^verbatim>\<open>Py_BuildValue\<close> with the format \<^verbatim>\<open>s#\<close> under Python 3: the bytes copied from
  the pointer are decoded as UTF-8 into a text string; bytes that are not UTF-8 make the
  call return \<^verbatim>\<open>NULL\<close> with \<^verbatim>\<open>UnicodeDecodeError\<close> set.
\<close>

definition Py_BuildValue_str :: "byte list \<Rightarrow> int \<Rightarrow> pystate \<Rightarrow> (pyobj option \<times> pystate) outcome" where
  "Py_BuildValue_str buf n st =
    (case value_bytes buf n of
       Fault f \<Rightarrow> Fault f
     | Normal bs \<Rightarrow>
         (case utf8_decode bs of
            Some u \<Rightarrow> Normal (Some (PyUnicode u), st)
          | None \<Rightarrow> Normal (None, st\<lparr>err := Some UnicodeDecodeError\<rparr>)))"

subsection \<open>Arguments\<close>

text \<open>
  The arguments of \<^verbatim>\<open>encrypt\<close> and \<^verbatim>\<open>decrypt\<close> (keyword list \<^verbatim>\<open>g_kwlist\<close>) and of
  \<^verbatim>\<open>hash\<close> (\<^verbatim>\<open>g2_kwlist\<close>). The arguments after the bar of the format string are
  optional: a variable that is not given keeps its initialiser. A call whose arguments
  \<^verbatim>\<open>PyArg_ParseTupleAndKeywords\<close> refuses is \<open>None\<close>.
\<close>

record crypt_args =
  input :: "byte list"
  password :: "byte list"
  maxtime :: "real option"
  maxmem :: "64 word option"
  maxmemfrac :: "real option"

record hash_args =
  h_password :: "byte list"
  h_salt :: "byte list"
  h_N :: "64 word option"
  h_r :: "32 word option"
  h_p :: "32 word option"

definition given :: "'a \<Rightarrow> 'a option \<Rightarrow> 'a" where
  "given d x = (case x of None \<Rightarrow> d | Some v \<Rightarrow> v)"

text \<open>
  In \<^verbatim>\<open>scrypt3.c\<close> the format \<^verbatim>\<open>s#\<close> stores each length in an \<^verbatim>\<open>int\<close>; the parser
  refuses a buffer whose size does not fit.
\<close>

definition fits_int :: "byte list \<Rightarrow> bool" where
  "fits_int bs \<longleftrightarrow> int (length bs) \<le> INT_MAX"

text \<open>
  The format \<^verbatim>\<open>k\<close> stores an \<^verbatim>\<open>unsigned long\<close> at \<^verbatim>\<open>&r\<close> and at \<^verbatim>\<open>&p\<close>, each
  the address of a \<^verbatim>\<open>uint32_t\<close>. The stores stay inside the variables when
  \<^verbatim>\<open>unsigned long\<close> has 32 bits, or when neither argument is passed and nothing is
  stored.
\<close>

definition k_store_fits :: "data_model \<Rightarrow> hash_args \<Rightarrow> bool" where
  "k_store_fits dm a \<longleftrightarrow> ulong_bits dm = 32 \<or> (h_r a = None \<and> h_p a = None)"

subsection \<open>\<^verbatim>\<open>scrypt3.c\<close>: the Python 3 module\<close>

text \<open>
  \<^verbatim>\<open>scrypt_encrypt\<close>, lines 56 to 90. The buffer has \<^verbatim>\<open>inputlen+129\<close> bytes, the
  value is built from the first \<^verbatim>\<open>inputlen+128\<close>. Both sums are \<^verbatim>\<open>int\<close> additions.
  On a nonzero code the message is set with \<^verbatim>\<open>PyErr_Format\<close> and then
  \<^verbatim>\<open>PyErr_SetNone\<close> is called on the same exception type.
\<close>

definition scrypt_encrypt3 :: "prims \<Rightarrow> crypt_args option \<Rightarrow> pystate \<Rightarrow> (pyobj option \<times> pystate) outcome" where
  "scrypt_encrypt3 env args st =
    (case args of
       None \<Rightarrow> Normal (None, st\<lparr>err := Some ArgumentError\<rparr>)
     | Some a \<Rightarrow>
         if \<not> (fits_int (input a) \<and> fits_int (password a))
         then Normal (None, st\<lparr>err := Some ArgumentError\<rparr>)
         else
           let inputlen = int (length (input a));
               maxmem' = given g_maxmem_default (maxmem a);
               maxmemfrac' = given g_maxmemfrac_default_enc (maxmemfrac a);
               maxtime' = given g_maxtime_default_enc (maxtime a)
           in if inputlen + 129 > INT_MAX then Fault SignedOverflow
              else
                (case PyMem_Malloc env (nat (inputlen + 129)) st of
                   (outbuf, st1) \<Rightarrow>
                     (case scryptenc_buf env (input a) (password a) maxmem' maxmemfrac' maxtime' of
                        (errorcode, out) \<Rightarrow>
                          (case store_out outbuf out of
                             Fault f \<Rightarrow> Fault f
                           | Normal outbuf' \<Rightarrow>
                               let st2 = called Call_scryptenc_buf st1 in
                               if errorcode \<noteq> 0 then
                                 (case error_message errorcode of
                                    None \<Rightarrow> Fault TableOutOfRange
                                  | Some msg \<Rightarrow>
                                      Normal (None, PyMem_Free (PyErr_SetNone (PyErr_Format msg st2))))
                               else
                                 (case Py_BuildValue_bytes outbuf' (inputlen + 128) st2 of
                                    Fault f \<Rightarrow> Fault f
                                  | Normal (value, st3) \<Rightarrow> Normal (value, PyMem_Free st3))))))"

text \<open>
  \<^verbatim>\<open>scrypt_decrypt\<close>, lines 92 to 125. The buffer has \<^verbatim>\<open>inputlen\<close> bytes; the value
  is built with the format \<^verbatim>\<open>s#\<close> from \<^verbatim>\<open>outbuf\<close> and \<^verbatim>\<open>outputlen\<close>, the
  \<^verbatim>\<open>size_t\<close> the library stored, which \<^verbatim>\<open>Py_BuildValue\<close> reads as an \<^verbatim>\<open>int\<close>.
  Nothing compares \<^verbatim>\<open>outputlen\<close> with \<^verbatim>\<open>inputlen\<close>.
\<close>

definition scrypt_decrypt3 :: "prims \<Rightarrow> crypt_args option \<Rightarrow> pystate \<Rightarrow> (pyobj option \<times> pystate) outcome" where
  "scrypt_decrypt3 env args st =
    (case args of
       None \<Rightarrow> Normal (None, st\<lparr>err := Some ArgumentError\<rparr>)
     | Some a \<Rightarrow>
         if \<not> (fits_int (input a) \<and> fits_int (password a))
         then Normal (None, st\<lparr>err := Some ArgumentError\<rparr>)
         else
           let inputlen = length (input a);
               maxmem' = given g_maxmem_default (maxmem a);
               maxmemfrac' = given g_maxmemfrac_default (maxmemfrac a);
               maxtime' = given g_maxtime_default (maxtime a)
           in (case PyMem_Malloc env inputlen st of
                 (outbuf, st1) \<Rightarrow>
                   (case scryptdec_buf env (input a) (password a) maxmem' maxmemfrac' maxtime' of
                      (errorcode, out, outputlen) \<Rightarrow>
                        (case store_out outbuf out of
                           Fault f \<Rightarrow> Fault f
                         | Normal outbuf' \<Rightarrow>
                             let st2 = called Call_scryptdec_buf st1 in
                             if errorcode \<noteq> 0 then
                               (case error_message errorcode of
                                  None \<Rightarrow> Fault TableOutOfRange
                                | Some msg \<Rightarrow> Normal (None, PyMem_Free (PyErr_Format msg st2)))
                             else
                               (case Py_BuildValue_str outbuf' (va_int outputlen) st2 of
                                  Fault f \<Rightarrow> Fault f
                                | Normal (value, st3) \<Rightarrow> Normal (value, PyMem_Free st3))))))"

text \<open>
  The test of \<^verbatim>\<open>scrypt_hash\<close> on its cost parameters (line 151 of \<^verbatim>\<open>scrypt3.c\<close>, line
  176 of \<^verbatim>\<open>scrypt2.c\<close>), with the value it leaves in \<^verbatim>\<open>paramerror\<close>. \<^verbatim>\<open>r\<close> and
  \<^verbatim>\<open>p\<close> are \<^verbatim>\<open>uint32_t\<close>, so the product is taken modulo \<open>2 ^ 32\<close>; \<^verbatim>\<open>N\<close> is
  \<^verbatim>\<open>uint64_t\<close>.
\<close>

definition paramerror :: "64 word \<Rightarrow> 32 word \<Rightarrow> 32 word \<Rightarrow> int" where
  "paramerror N r p =
    (if r * p \<ge> 2 ^ 30 \<or> N \<le> 1 \<or> (N AND (N - 1)) \<noteq> 0 then - 1 else 0)"

text \<open>
  \<^verbatim>\<open>scrypt_hash\<close>, lines 126 to 176. The arguments are parsed with the format
  \<^verbatim>\<open>s#s#|Kkk\<close>; then the 64-byte buffer is allocated, then the parameters are tested,
  then the library is called if they passed. \<^verbatim>\<open>outbuflen\<close> is a \<^verbatim>\<open>size_t\<close>, read by
  \<^verbatim>\<open>Py_BuildValue\<close> as an \<^verbatim>\<open>int\<close>.
\<close>

definition scrypt_hash3 :: "data_model \<Rightarrow> prims \<Rightarrow> hash_args option \<Rightarrow> pystate \<Rightarrow> (pyobj option \<times> pystate) outcome" where
  "scrypt_hash3 dm env args st =
    (case args of
       None \<Rightarrow> Normal (None, st\<lparr>err := Some ArgumentError\<rparr>)
     | Some a \<Rightarrow>
         if \<not> (fits_int (h_password a) \<and> fits_int (h_salt a))
         then Normal (None, st\<lparr>err := Some ArgumentError\<rparr>)
         else if \<not> k_store_fits dm a then Fault StorePastObject
         else
           let N = given (2 ^ 14) (h_N a);
               r = given 8 (h_r a);
               p = given 1 (h_p a)
           in (case PyMem_Malloc env 64 st of
                 (outbuf, st1) \<Rightarrow>
                   let outbuflen = (64 :: nat);
                       st2 = called GuardTest st1
                   in if paramerror N r p \<noteq> 0
                      then Normal (None, PyMem_Free (PyErr_Format hash_params_msg st2))
                      else
                        (case crypto_scrypt env (h_password a) (h_salt a) N r p outbuflen of
                           (hasherror, out) \<Rightarrow>
                             (case store_out outbuf out of
                                Fault f \<Rightarrow> Fault f
                              | Normal outbuf' \<Rightarrow>
                                  let st3 = called (Call_crypto_scrypt N r p) st2 in
                                  if hasherror \<noteq> 0
                                  then Normal (None, PyMem_Free (PyErr_Format hash_failed_msg st3))
                                  else
                                    (case Py_BuildValue_bytes outbuf' (va_int outbuflen) st3 of
                                       Fault f \<Rightarrow> Fault f
                                     | Normal (value, st4) \<Rightarrow> Normal (value, PyMem_Free st4))))))"

subsection \<open>\<^verbatim>\<open>scrypt2.c\<close>: the Python 2 module\<close>

text \<open>
  \<^verbatim>\<open>scrypt_encrypt\<close>, lines 57 to 100. The arguments are string objects; their sizes
  are stored in \<^verbatim>\<open>int\<close> variables, so a size above \<^verbatim>\<open>INT_MAX\<close> does not survive
  the assignment. The value is built with \<^verbatim>\<open>z#\<close>, a byte string under Python 2.
\<close>

definition scrypt_encrypt2 :: "prims \<Rightarrow> crypt_args option \<Rightarrow> pystate \<Rightarrow> (pyobj option \<times> pystate) outcome" where
  "scrypt_encrypt2 env args st =
    (case args of
       None \<Rightarrow> Normal (None, st\<lparr>err := Some ArgumentError\<rparr>)
     | Some a \<Rightarrow>
         if \<not> (fits_int (input a) \<and> fits_int (password a))
         then Fault LengthTruncated
         else
           let inputlen = int (length (input a));
               maxmem' = given g_maxmem_default (maxmem a);
               maxmemfrac' = given g_maxmemfrac_default_enc (maxmemfrac a);
               maxtime' = given g_maxtime_default_enc (maxtime a)
           in if inputlen + 129 > INT_MAX then Fault SignedOverflow
              else
                (case PyMem_Malloc env (nat (inputlen + 129)) st of
                   (outbuf, st1) \<Rightarrow>
                     (case scryptenc_buf env (input a) (password a) maxmem' maxmemfrac' maxtime' of
                        (errorcode, out) \<Rightarrow>
                          (case store_out outbuf out of
                             Fault f \<Rightarrow> Fault f
                           | Normal outbuf' \<Rightarrow>
                               let st2 = called Call_scryptenc_buf st1 in
                               if errorcode \<noteq> 0 then
                                 (case error_message errorcode of
                                    None \<Rightarrow> Fault TableOutOfRange
                                  | Some msg \<Rightarrow>
                                      Normal (None, PyMem_Free (PyErr_SetNone (PyErr_Format msg st2))))
                               else
                                 (case Py_BuildValue_bytes outbuf' (inputlen + 128) st2 of
                                    Fault f \<Rightarrow> Fault f
                                  | Normal (value, st3) \<Rightarrow> Normal (value, PyMem_Free st3))))))"

text \<open>
  \<^verbatim>\<open>scrypt_decrypt\<close>, lines 102 to 143. The sizes are \<^verbatim>\<open>size_t\<close> here; the value is
  built with \<^verbatim>\<open>z#\<close>, which reads the \<^verbatim>\<open>size_t\<close> \<^verbatim>\<open>outputlen\<close> as an \<^verbatim>\<open>int\<close>.
\<close>

definition scrypt_decrypt2 :: "prims \<Rightarrow> crypt_args option \<Rightarrow> pystate \<Rightarrow> (pyobj option \<times> pystate) outcome" where
  "scrypt_decrypt2 env args st =
    (case args of
       None \<Rightarrow> Normal (None, st\<lparr>err := Some ArgumentError\<rparr>)
     | Some a \<Rightarrow>
         let inputlen = length (input a);
             maxmem' = given g_maxmem_default (maxmem a);
             maxmemfrac' = given g_maxmemfrac_default (maxmemfrac a);
             maxtime' = given g_maxtime_default (maxtime a)
         in (case PyMem_Malloc env inputlen st of
               (outbuf, st1) \<Rightarrow>
                 (case scryptdec_buf env (input a) (password a) maxmem' maxmemfrac' maxtime' of
                    (errorcode, out, outputlen) \<Rightarrow>
                      (case store_out outbuf out of
                         Fault f \<Rightarrow> Fault f
                       | Normal outbuf' \<Rightarrow>
                           let st2 = called Call_scryptdec_buf st1 in
                           if errorcode \<noteq> 0 then
                             (case error_message errorcode of
                                None \<Rightarrow> Fault TableOutOfRange
                              | Some msg \<Rightarrow> Normal (None, PyMem_Free (PyErr_Format msg st2)))
                           else
                             (case Py_BuildValue_bytes outbuf' (va_int outputlen) st2 of
                                Fault f \<Rightarrow> Fault f
                              | Normal (value, st3) \<Rightarrow> Normal (value, PyMem_Free st3))))))"

text \<open>
  \<^verbatim>\<open>scrypt_hash\<close>, lines 145 to 204. The format is \<^verbatim>\<open>SS|Kkk\<close>; the initialisers of
  \<^verbatim>\<open>N\<close>, \<^verbatim>\<open>r\<close> and \<^verbatim>\<open>p\<close> are 1024, 1 and 1 in this file.
\<close>

definition scrypt_hash2 :: "data_model \<Rightarrow> prims \<Rightarrow> hash_args option \<Rightarrow> pystate \<Rightarrow> (pyobj option \<times> pystate) outcome" where
  "scrypt_hash2 dm env args st =
    (case args of
       None \<Rightarrow> Normal (None, st\<lparr>err := Some ArgumentError\<rparr>)
     | Some a \<Rightarrow>
         if \<not> k_store_fits dm a then Fault StorePastObject
         else
         let N = given 1024 (h_N a);
             r = given 1 (h_r a);
             p = given 1 (h_p a)
         in (case PyMem_Malloc env 64 st of
               (outbuf, st1) \<Rightarrow>
                 let outbuflen = (64 :: nat);
                     st2 = called GuardTest st1
                 in if paramerror N r p \<noteq> 0
                    then Normal (None, PyMem_Free (PyErr_Format hash_params_msg st2))
                    else
                      (case crypto_scrypt env (h_password a) (h_salt a) N r p outbuflen of
                         (hasherror, out) \<Rightarrow>
                           (case store_out outbuf out of
                              Fault f \<Rightarrow> Fault f
                            | Normal outbuf' \<Rightarrow>
                                let st3 = called (Call_crypto_scrypt N r p) st2 in
                                if hasherror \<noteq> 0
                                then Normal (None, PyMem_Free (PyErr_Format hash_failed_msg st3))
                                else
                                  (case Py_BuildValue_bytes outbuf' (va_int outbuflen) st3 of
                                     Fault f \<Rightarrow> Fault f
                                   | Normal (value, st4) \<Rightarrow> Normal (value, PyMem_Free st4))))))"

subsection \<open>Stand-ins for the library\<close>

text \<open>
  To run the wrappers on concrete inputs some library has to be plugged in. \<open>demo_prims\<close>
  keeps the shape of the real one and none of its cryptography: encryption wraps the
  input in a 96-byte header and a 32-byte trailer, decryption strips them, the key
  derivation fills the buffer with a constant. It is used in closed examples only; the
  general theorems quantify over every library.
\<close>

definition demo_prims :: prims where
  "demo_prims =
    \<lparr>scryptenc_buf = (\<lambda>inbuf passwd mm mf mt. (0, replicate 96 0 @ inbuf @ replicate 32 0)),
     scryptdec_buf = (\<lambda>inbuf passwd mm mf mt.
        (0, take (length inbuf - 128) (drop 96 inbuf), length inbuf - 128)),
     crypto_scrypt = (\<lambda>passwd salt N r p buflen. (0, replicate buflen 0x5A)),
     uninit = (\<lambda>i. 0xAA)\<rparr>"

definition st0 :: pystate where
  "st0 = \<lparr>err = None, trace = []\<rparr>"

subsection \<open>Calls and their observations\<close>

text \<open>A call with the two positional arguments only, and a call of \<^verbatim>\<open>hash\<close>.\<close>

definition plain :: "byte list \<Rightarrow> byte list \<Rightarrow> crypt_args" where
  "plain bs pw = \<lparr>input = bs, password = pw, maxtime = None, maxmem = None, maxmemfrac = None\<rparr>"

definition hash_call :: "byte list \<Rightarrow> byte list \<Rightarrow> 64 word option \<Rightarrow> 32 word option \<Rightarrow> 32 word option \<Rightarrow> hash_args" where
  "hash_call pw salt N r p = \<lparr>h_password = pw, h_salt = salt, h_N = N, h_r = r, h_p = p\<rparr>"

text \<open>The library calls a wrapper makes for given arguments, with the defaults filled in.\<close>

definition enc_call :: "prims \<Rightarrow> crypt_args \<Rightarrow> int \<times> byte list" where
  "enc_call env a =
    scryptenc_buf env (input a) (password a) (given g_maxmem_default (maxmem a))
      (given g_maxmemfrac_default_enc (maxmemfrac a)) (given g_maxtime_default_enc (maxtime a))"

definition dec_call :: "prims \<Rightarrow> crypt_args \<Rightarrow> int \<times> byte list \<times> nat" where
  "dec_call env a =
    scryptdec_buf env (input a) (password a) (given g_maxmem_default (maxmem a))
      (given g_maxmemfrac_default (maxmemfrac a)) (given g_maxtime_default (maxtime a))"

text \<open>The contents of an \<open>n\<close>-byte buffer after the library wrote \<open>out\<close> to it.\<close>

definition outbuf_after :: "prims \<Rightarrow> nat \<Rightarrow> byte list \<Rightarrow> byte list" where
  "outbuf_after env n out = out @ drop (length out) (map (uninit env) [0..<n])"

text \<open>
  The Python expression \<^verbatim>\<open>decrypt(encrypt(p, k), k)\<close>: \<open>a\<close> holds the arguments of
  \<^verbatim>\<open>encrypt\<close>, \<open>b\<close> the password and budget of \<^verbatim>\<open>decrypt\<close>, whose input is the
  byte string \<^verbatim>\<open>encrypt\<close> returned. If \<^verbatim>\<open>encrypt\<close> raises, \<^verbatim>\<open>decrypt\<close> is not
  called.
\<close>

definition decrypt_encrypt3 :: "prims \<Rightarrow> crypt_args \<Rightarrow> crypt_args \<Rightarrow> pystate \<Rightarrow> (pyobj option \<times> pystate) outcome" where
  "decrypt_encrypt3 env a b st =
    (case scrypt_encrypt3 env (Some a) st of
       Normal (Some (PyBytes c), st1) \<Rightarrow> scrypt_decrypt3 env (Some (b\<lparr>input := c\<rparr>)) st1
     | other \<Rightarrow> other)"

definition decrypt_encrypt2 :: "prims \<Rightarrow> crypt_args \<Rightarrow> crypt_args \<Rightarrow> pystate \<Rightarrow> (pyobj option \<times> pystate) outcome" where
  "decrypt_encrypt2 env a b st =
    (case scrypt_encrypt2 env (Some a) st of
       Normal (Some (PyBytes c), st1) \<Rightarrow> scrypt_decrypt2 env (Some (b\<lparr>input := c\<rparr>)) st1
     | other \<Rightarrow> other)"

text \<open>The events of one call: what it appended to the trace.\<close>

definition call_events :: "pystate \<Rightarrow> pystate \<Rightarrow> event list" where
  "call_events st s = drop (length (trace st)) (trace s)"

definition roundtrip_events :: "nat \<Rightarrow> event list" where
  "roundtrip_events n =
    [Malloc (n + 129), Call_scryptenc_buf, Free, Malloc (n + 128), Call_scryptdec_buf, Free]"

text \<open>
  An allocator check over a sequence of events: \<open>heap_run live es\<close> counts the live
  buffers and is \<open>None\<close> as soon as \<open>Free\<close> is called with none live. A call releases
  its buffer exactly once when the run from no live buffer ends with none, at most one
  buffer was allocated, and there are as many frees as allocations.
\<close>

fun heap_run :: "nat \<Rightarrow> event list \<Rightarrow> nat option" where
  "heap_run live [] = Some live"
| "heap_run live (Malloc n # es) = heap_run (Suc live) es"
| "heap_run live (Free # es) = (if live = 0 then None else heap_run (live - 1) es)"
| "heap_run live (e # es) = heap_run live es"

fun is_Malloc :: "event \<Rightarrow> bool" where
  "is_Malloc (Malloc n) = True"
| "is_Malloc e = False"

definition released_once :: "event list \<Rightarrow> bool" where
  "released_once tr \<longleftrightarrow>
     heap_run 0 tr = Some 0 \<and>
     length (filter is_Malloc tr) \<le> 1 \<and>
     count_list tr Free = length (filter is_Malloc tr)"

section \<open>Properties\<close>

text \<open>A length below \<open>2 ^ 31\<close> is read back unchanged; so is the 64 of \<^verbatim>\<open>outbuflen\<close>.\<close>

lemma va_int_small: "int n < 2 ^ 31 \<Longrightarrow> va_int n = int n"
  by (simp add: va_int_def Let_def)

lemma va_int_64: "va_int 64 = 64"
  by (simp add: va_int_def)

lemmas call_defs = PyMem_Malloc_def PyMem_Free_def PyErr_Format_def PyErr_SetNone_def called_def
  store_out_def Py_BuildValue_bytes_def Py_BuildValue_str_def value_bytes_def va_int_64

lemmas eval_defs = call_defs plain_def hash_call_def demo_prims_def st0_def fits_int_def
  INT_MAX_def given_def g_maxmem_default_def Let_def paramerror_def error_message_def
  g_error_codes_def word_le_nat_alt enc_call_def dec_call_def outbuf_after_def
  va_int_def strlen_def k_store_fits_def

subsection \<open>Success paths of the four encryption wrappers\<close>

lemma encrypt3_success:
  assumes "fits_int (input a)" and "fits_int (password a)"
    and "int (length (input a)) + 129 \<le> INT_MAX"
    and "enc_call env a = (0, c)"
    and "length c = length (input a) + 128"
  shows "scrypt_encrypt3 env (Some a) st =
    Normal (Some (PyBytes c),
      st\<lparr>trace := trace st @ [Malloc (length (input a) + 129), Call_scryptenc_buf, Free]\<rparr>)"
  using assms
  by (simp add: scrypt_encrypt3_def enc_call_def call_defs Let_def nat_add_distrib)

lemma encrypt2_success:
  assumes "fits_int (input a)" and "fits_int (password a)"
    and "int (length (input a)) + 129 \<le> INT_MAX"
    and "enc_call env a = (0, c)"
    and "length c = length (input a) + 128"
  shows "scrypt_encrypt2 env (Some a) st =
    Normal (Some (PyBytes c),
      st\<lparr>trace := trace st @ [Malloc (length (input a) + 129), Call_scryptenc_buf, Free]\<rparr>)"
  using assms
  by (simp add: scrypt_encrypt2_def enc_call_def call_defs Let_def nat_add_distrib)

lemma decrypt3_success:
  assumes "fits_int (input a)" and "fits_int (password a)"
    and "dec_call env a = (0, out, length out)"
    and "length out \<le> length (input a)"
  shows "scrypt_decrypt3 env (Some a) st =
    (case utf8_decode out of
       Some u \<Rightarrow>
         Normal (Some (PyUnicode u),
           st\<lparr>trace := trace st @ [Malloc (length (input a)), Call_scryptdec_buf, Free]\<rparr>)
     | None \<Rightarrow>
         Normal (None,
           st\<lparr>err := Some UnicodeDecodeError,
              trace := trace st @ [Malloc (length (input a)), Call_scryptdec_buf, Free]\<rparr>))"
proof -
  from assms have "va_int (length out) = int (length out)"
    by (simp add: va_int_small fits_int_def INT_MAX_def)
  with assms show ?thesis
    by (simp add: scrypt_decrypt3_def dec_call_def call_defs Let_def split: option.splits)
qed

lemma decrypt2_success:
  assumes "dec_call env a = (0, out, length out)"
    and "length out \<le> length (input a)"
    and "int (length out) \<le> INT_MAX"
  shows "scrypt_decrypt2 env (Some a) st =
    Normal (Some (PyBytes out),
      st\<lparr>trace := trace st @ [Malloc (length (input a)), Call_scryptdec_buf, Free]\<rparr>)"
proof -
  from assms have "va_int (length out) = int (length out)"
    by (simp add: va_int_small INT_MAX_def)
  with assms show ?thesis
    by (simp add: scrypt_decrypt2_def dec_call_def call_defs Let_def)
qed

subsection \<open>Round trip\<close>

text \<open>
  Claim C1, as amended. Let the library encrypt the plaintext of \<open>a\<close> under its password
  into a container \<open>c\<close> of \<open>len + 128\<close> bytes, and let it decrypt \<open>c\<close> under the same
  password and the budget of \<open>b\<close> back into that plaintext (this is where the budget
  of decryption has to cover the cost chosen at encryption); let the sizes fit an
  \<^verbatim>\<open>int\<close>. Then \<^verbatim>\<open>decrypt(encrypt(p, k), k)\<close> returns exactly the plaintext, as a byte
  string, in the Python 2 module. In the Python 3 module it returns the plaintext
  decoded as UTF-8, a text string, when the plaintext is well-formed UTF-8, and raises
  \<^verbatim>\<open>UnicodeDecodeError\<close> when it is not: \<^verbatim>\<open>scrypt_decrypt\<close> of \<^verbatim>\<open>scrypt3.c\<close> builds its
  result with the format \<^verbatim>\<open>s#\<close>.
\<close>

theorem roundtrip_bytes_or_decoded_text:
  assumes pw: "fits_int (password a)" "password b = password a"
    and small: "int (length (input a)) + 129 \<le> INT_MAX"
    and enc: "enc_call env a = (0, c)"
    and clen: "length c = length (input a) + 128"
    and dec: "dec_call env (b\<lparr>input := c\<rparr>) = (0, input a, length (input a))"
  shows "decrypt_encrypt2 env a b st =
           Normal (Some (PyBytes (input a)),
             st\<lparr>trace := trace st @ roundtrip_events (length (input a))\<rparr>) \<and>
         decrypt_encrypt3 env a b st =
           (case utf8_decode (input a) of
              Some u \<Rightarrow>
                Normal (Some (PyUnicode u),
                  st\<lparr>trace := trace st @ roundtrip_events (length (input a))\<rparr>)
            | None \<Rightarrow>
                Normal (None,
                  st\<lparr>err := Some UnicodeDecodeError,
                     trace := trace st @ roundtrip_events (length (input a))\<rparr>))"
proof -
  let ?b = "b\<lparr>input := c\<rparr>"
  from small clen have fa: "fits_int (input a)" and fb: "fits_int (input ?b)"
    by (simp_all add: fits_int_def)
  from pw have fp: "fits_int (password ?b)" by simp
  from clen have le: "length (input a) \<le> length (input ?b)" by simp
  from small have im: "int (length (input a)) \<le> INT_MAX" by simp
  have e2: "scrypt_encrypt2 env (Some a) st =
      Normal (Some (PyBytes c),
        st\<lparr>trace := trace st @ [Malloc (length (input a) + 129), Call_scryptenc_buf, Free]\<rparr>)"
    by (rule encrypt2_success [OF fa pw(1) small enc clen])
  have e3: "scrypt_encrypt3 env (Some a) st =
      Normal (Some (PyBytes c),
        st\<lparr>trace := trace st @ [Malloc (length (input a) + 129), Call_scryptenc_buf, Free]\<rparr>)"
    by (rule encrypt3_success [OF fa pw(1) small enc clen])
  have two: "decrypt_encrypt2 env a b st =
      Normal (Some (PyBytes (input a)),
        st\<lparr>trace := trace st @ roundtrip_events (length (input a))\<rparr>)"
    using clen
    by (simp add: decrypt_encrypt2_def e2 decrypt2_success [OF dec le im] roundtrip_events_def)
  have three: "decrypt_encrypt3 env a b st =
      (case utf8_decode (input a) of
         Some u \<Rightarrow>
           Normal (Some (PyUnicode u),
             st\<lparr>trace := trace st @ roundtrip_events (length (input a))\<rparr>)
       | None \<Rightarrow>
           Normal (None,
             st\<lparr>err := Some UnicodeDecodeError,
                trace := trace st @ roundtrip_events (length (input a))\<rparr>))"
    using clen
    by (simp add: decrypt_encrypt3_def e3 decrypt3_success [OF fb fp dec le] roundtrip_events_def
        split: option.splits)
  from two three show ?thesis ..
qed

text \<open>The amended round trip on the two-byte plaintext \<^verbatim>\<open>hi\<close>, with the stand-in library.\<close>

theorem roundtrip_bytes_or_decoded_text_witness:
  "fits_int (password (plain [0x68, 0x69] [0x6B])) \<and>
   enc_call demo_prims (plain [0x68, 0x69] [0x6B]) = (0, replicate 96 0 @ [0x68, 0x69] @ replicate 32 0) \<and>
   dec_call demo_prims ((plain [] [0x6B])\<lparr>input := replicate 96 0 @ [0x68, 0x69] @ replicate 32 0\<rparr>)
     = (0, [0x68, 0x69], 2) \<and>
   decrypt_encrypt2 demo_prims (plain [0x68, 0x69] [0x6B]) (plain [] [0x6B]) st0 =
     Normal (Some (PyBytes [0x68, 0x69]), \<lparr>err = None, trace = roundtrip_events 2\<rparr>) \<and>
   decrypt_encrypt3 demo_prims (plain [0x68, 0x69] [0x6B]) (plain [] [0x6B]) st0 =
     Normal (Some (PyUnicode [104, 105]), \<lparr>err = None, trace = roundtrip_events 2\<rparr>)"
proof -
  let ?a = "plain [0x68, 0x69] [0x6B]" and ?b = "plain [] [0x6B]"
  let ?c = "replicate 96 0 @ [0x68, 0x69] @ replicate 32 (0 :: byte)"
  have h1: "fits_int (password ?a)" and h2: "password ?b = password ?a"
    and h3: "int (length (input ?a)) + 129 \<le> INT_MAX"
    by (simp_all add: plain_def fits_int_def INT_MAX_def)
  have h4: "enc_call demo_prims ?a = (0, ?c)"
    by (simp add: enc_call_def demo_prims_def plain_def)
  have h5: "length ?c = length (input ?a) + 128"
    by (simp add: plain_def)
  have h6: "dec_call demo_prims (?b\<lparr>input := ?c\<rparr>) = (0, input ?a, length (input ?a))"
    by (simp add: dec_call_def demo_prims_def plain_def)
  have u: "utf8_decode (input ?a) = Some [104, 105]"
    by (simp add: plain_def)
  have i: "input ?a = [0x68, 0x69]"
    by (simp add: plain_def)
  from roundtrip_bytes_or_decoded_text [OF h1 h2 h3 h4 h5 h6, of st0] h1 h4 h6
  show ?thesis
    by (simp add: u i st0_def roundtrip_events_def)
qed

text \<open>
  Claim C1 as stated fails in the Python 3 module: for the one-byte plaintext \<^verbatim>\<open>0xFF\<close>
  the library round-trips, and \<^verbatim>\<open>decrypt(encrypt(p, k), k)\<close> raises
  \<^verbatim>\<open>UnicodeDecodeError\<close> instead of returning the plaintext.
\<close>

theorem roundtrip_counterexample:
  "decrypt_encrypt3 demo_prims (plain [0xFF] [0x6B]) (plain [] [0x6B]) st0 =
     Normal (None, \<lparr>err = Some UnicodeDecodeError, trace = roundtrip_events 1\<rparr>)"
  by (simp add: decrypt_encrypt3_def scrypt_encrypt3_def scrypt_decrypt3_def roundtrip_events_def
      eval_defs)

subsection \<open>The cost-parameter test of \<^verbatim>\<open>hash\<close>\<close>

text \<open>What the test computes, in unbounded arithmetic: the product is reduced modulo \<open>2 ^ 32\<close>.\<close>

lemma paramerror_iff:
  "paramerror N r p \<noteq> 0 \<longleftrightarrow>
     2 ^ 30 \<le> (unat r * unat p) mod 2 ^ 32 \<or> N \<le> 1 \<or> N AND (N - 1) \<noteq> 0"
  by (simp add: paramerror_def word_le_nat_alt unat_word_ariths)

text \<open>
  Claim C2 fails on the code. For \<open>N = 16\<close>, \<open>r = 2 ^ 20\<close>, \<open>p = 2 ^ 20\<close> the exact
  product is \<open>2 ^ 40\<close>, but the 32-bit product is 0: the test passes, \<^verbatim>\<open>crypto_scrypt\<close>
  is called with these parameters in both modules, and the result is whatever the
  library makes of them. With a library that succeeds the call returns 64 bytes; with
  one that fails it raises the message of a failed derivation, not the message about
  wrong parameters. This is the code where \<^verbatim>\<open>unsigned long\<close> has 32 bits, as the
  source assumes; where it has 64 bits, storing \<^verbatim>\<open>r\<close> and \<^verbatim>\<open>p\<close> already leaves
  defined behaviour, and the message about wrong parameters is not raised either.
\<close>

theorem hash_cost_bound_wraps:
  "paramerror 16 (2 ^ 20) (2 ^ 20) = 0 \<and>
   scrypt_hash3 ILP32 demo_prims
       (Some (hash_call [0x70] [0x73] (Some 16) (Some (2 ^ 20)) (Some (2 ^ 20)))) st0 =
     Normal (Some (PyBytes (replicate 64 0x5A)),
       \<lparr>err = None,
        trace = [Malloc 64, GuardTest, Call_crypto_scrypt 16 (2 ^ 20) (2 ^ 20), Free]\<rparr>) \<and>
   scrypt_hash2 ILP32 demo_prims
       (Some (hash_call [0x70] [0x73] (Some 16) (Some (2 ^ 20)) (Some (2 ^ 20)))) st0 =
     Normal (Some (PyBytes (replicate 64 0x5A)),
       \<lparr>err = None,
        trace = [Malloc 64, GuardTest, Call_crypto_scrypt 16 (2 ^ 20) (2 ^ 20), Free]\<rparr>) \<and>
   scrypt_hash3 ILP32 (demo_prims\<lparr>crypto_scrypt := \<lambda>passwd salt N r p buflen. (- 1, [])\<rparr>)
       (Some (hash_call [0x70] [0x73] (Some 16) (Some (2 ^ 20)) (Some (2 ^ 20)))) st0 =
     Normal (None,
       \<lparr>err = Some (ScryptError (Some ''could not compute hash'')),
        trace = [Malloc 64, GuardTest, Call_crypto_scrypt 16 (2 ^ 20) (2 ^ 20), Free]\<rparr>) \<and>
   scrypt_hash3 LP64 demo_prims
       (Some (hash_call [0x70] [0x73] (Some 16) (Some (2 ^ 20)) (Some (2 ^ 20)))) st0 =
     Fault StorePastObject \<and>
   scrypt_hash2 LP64 demo_prims
       (Some (hash_call [0x70] [0x73] (Some 16) (Some (2 ^ 20)) (Some (2 ^ 20)))) st0 =
     Fault StorePastObject"
  by (simp add: scrypt_hash3_def scrypt_hash2_def hash_failed_msg_def eval_defs)

subsection \<open>Errors of the library\<close>

text \<open>
  In \<^verbatim>\<open>encrypt\<close> (both modules) the message set by \<^verbatim>\<open>PyErr_Format\<close> is replaced by
  the call of \<^verbatim>\<open>PyErr_SetNone\<close> that follows it: whatever nonzero code of the table
  the library returns, the exception reaches the caller with no message.
\<close>

lemma encrypt3_drops_message:
  assumes "scrypt_encrypt3 env (Some a) st = Normal (v, s)"
    and "fst (enc_call env a) \<noteq> 0"
    and "fits_int (input a)" and "fits_int (password a)"
  shows "v = None \<and> err s = Some (ScryptError None)"
  using assms
  by (auto simp: scrypt_encrypt3_def enc_call_def call_defs Let_def
      split: option.splits prod.splits outcome.splits if_splits)

lemma encrypt2_drops_message:
  assumes "scrypt_encrypt2 env (Some a) st = Normal (v, s)"
    and "fst (enc_call env a) \<noteq> 0"
  shows "v = None \<and> err s = Some (ScryptError None)"
  using assms
  by (auto simp: scrypt_encrypt2_def enc_call_def call_defs Let_def
      split: option.splits prod.splits outcome.splits if_splits)

text \<open>
  Claim C3 fails on the code. With a library that returns code 6 (\<^verbatim>\<open>malloc failed\<close>),
  \<^verbatim>\<open>encrypt\<close> raises \<^verbatim>\<open>scrypt.error\<close> without a message in both modules, while
  \<^verbatim>\<open>decrypt\<close> raises it with the message of the table.
\<close>

theorem encrypt_error_loses_message:
  "scrypt_encrypt3 (demo_prims\<lparr>scryptenc_buf := \<lambda>inbuf passwd mm mf mt. (6, [])\<rparr>)
       (Some (plain [1, 2, 3] [0x6B])) st0 =
     Normal (None,
       \<lparr>err = Some (ScryptError None), trace = [Malloc 132, Call_scryptenc_buf, Free]\<rparr>) \<and>
   scrypt_encrypt2 (demo_prims\<lparr>scryptenc_buf := \<lambda>inbuf passwd mm mf mt. (6, [])\<rparr>)
       (Some (plain [1, 2, 3] [0x6B])) st0 =
     Normal (None,
       \<lparr>err = Some (ScryptError None), trace = [Malloc 132, Call_scryptenc_buf, Free]\<rparr>) \<and>
   scrypt_decrypt3 (demo_prims\<lparr>scryptdec_buf := \<lambda>inbuf passwd mm mf mt. (6, [], 0)\<rparr>)
       (Some (plain [1, 2, 3] [0x6B])) st0 =
     Normal (None,
       \<lparr>err = Some (ScryptError (Some ''malloc failed'')),
        trace = [Malloc 3, Call_scryptdec_buf, Free]\<rparr>) \<and>
   scrypt_decrypt2 (demo_prims\<lparr>scryptdec_buf := \<lambda>inbuf passwd mm mf mt. (6, [], 0)\<rparr>)
       (Some (plain [1, 2, 3] [0x6B])) st0 =
     Normal (None,
       \<lparr>err = Some (ScryptError (Some ''malloc failed'')),
        trace = [Malloc 3, Call_scryptdec_buf, Free]\<rparr>)"
  by (simp add: scrypt_encrypt3_def scrypt_encrypt2_def scrypt_decrypt3_def scrypt_decrypt2_def
      eval_defs)

subsection \<open>Defaults of \<^verbatim>\<open>hash\<close>\<close>

text \<open>
  Claim C4 fails on the code. Called with password and salt only, on any data model,
  \<^verbatim>\<open>hash\<close> of \<^verbatim>\<open>scrypt3.c\<close> behaves as with \<open>N = 16384\<close>, \<open>r = 8\<close>, \<open>p = 1\<close>, but
  \<^verbatim>\<open>hash\<close> of \<^verbatim>\<open>scrypt2.c\<close> behaves as with \<open>N = 1024\<close>, \<open>r = 1\<close>, \<open>p = 1\<close>, and these
  are the parameters the library is called with. (The calls with explicit parameters
  are taken where \<^verbatim>\<open>unsigned long\<close> has 32 bits, so that passing \<^verbatim>\<open>r\<close> and \<^verbatim>\<open>p\<close> is
  defined.)
\<close>

theorem hash_defaults_differ:
  "scrypt_hash3 dm env (Some (hash_call pw salt None None None)) st =
     scrypt_hash3 ILP32 env (Some (hash_call pw salt (Some 16384) (Some 8) (Some 1))) st \<and>
   scrypt_hash2 dm env (Some (hash_call pw salt None None None)) st =
     scrypt_hash2 ILP32 env (Some (hash_call pw salt (Some 1024) (Some 1) (Some 1))) st \<and>
   scrypt_hash3 dm demo_prims (Some (hash_call [0x70] [0x73] None None None)) st0 =
     Normal (Some (PyBytes (replicate 64 0x5A)),
       \<lparr>err = None, trace = [Malloc 64, GuardTest, Call_crypto_scrypt 16384 8 1, Free]\<rparr>) \<and>
   scrypt_hash2 dm demo_prims (Some (hash_call [0x70] [0x73] None None None)) st0 =
     Normal (Some (PyBytes (replicate 64 0x5A)),
       \<lparr>err = None, trace = [Malloc 64, GuardTest, Call_crypto_scrypt 1024 1 1, Free]\<rparr>)"
  by (simp add: scrypt_hash3_def scrypt_hash2_def eval_defs)

subsection \<open>Order of allocation, parameter test and library call in \<^verbatim>\<open>hash\<close>\<close>

lemma hash3_order:
  assumes "fits_int (h_password a)" and "fits_int (h_salt a)"
  shows "case scrypt_hash3 dm env (Some a) st of
           Normal (v, s) \<Rightarrow>
             k_store_fits dm a \<and>
             trace s = trace st @ [Malloc 64, GuardTest] @
               (if paramerror (given (2 ^ 14) (h_N a)) (given 8 (h_r a)) (given 1 (h_p a)) \<noteq> 0
                then [Free]
                else [Call_crypto_scrypt (given (2 ^ 14) (h_N a)) (given 8 (h_r a)) (given 1 (h_p a)),
                      Free]) \<and>
             (paramerror (given (2 ^ 14) (h_N a)) (given 8 (h_r a)) (given 1 (h_p a)) \<noteq> 0 \<longrightarrow>
                v = None \<and> err s = Some (ScryptError (Some hash_params_msg)))
         | Fault f \<Rightarrow>
             (if k_store_fits dm a
              then f = BufferOverflow \<and>
                paramerror (given (2 ^ 14) (h_N a)) (given 8 (h_r a)) (given 1 (h_p a)) = 0
              else f = StorePastObject)"
  using assms
  by (auto simp: scrypt_hash3_def call_defs Let_def
      split: option.splits prod.splits outcome.splits if_splits)

lemma hash2_order:
  "case scrypt_hash2 dm env (Some a) st of
     Normal (v, s) \<Rightarrow>
       k_store_fits dm a \<and>
       trace s = trace st @ [Malloc 64, GuardTest] @
         (if paramerror (given 1024 (h_N a)) (given 1 (h_r a)) (given 1 (h_p a)) \<noteq> 0
          then [Free]
          else [Call_crypto_scrypt (given 1024 (h_N a)) (given 1 (h_r a)) (given 1 (h_p a)),
                Free]) \<and>
       (paramerror (given 1024 (h_N a)) (given 1 (h_r a)) (given 1 (h_p a)) \<noteq> 0 \<longrightarrow>
          v = None \<and> err s = Some (ScryptError (Some hash_params_msg)))
   | Fault f \<Rightarrow>
       (if k_store_fits dm a
        then f = BufferOverflow \<and>
          paramerror (given 1024 (h_N a)) (given 1 (h_r a)) (given 1 (h_p a)) = 0
        else f = StorePastObject)"
  by (auto simp: scrypt_hash2_def call_defs Let_def
      split: option.splits prod.splits outcome.splits if_splits)

text \<open>
  Claim C5, as amended. Take any call of \<^verbatim>\<open>hash\<close>, on any data model, whose arguments
  are accepted by the argument parser. If the call returns (with a value or with an
  exception), then the parser stored inside \<^verbatim>\<open>r\<close> and \<^verbatim>\<open>p\<close> (neither was passed, or
  \<^verbatim>\<open>unsigned long\<close> has 32 bits), the 64-byte buffer was allocated first, the parameter
  test came second, and the library was called only after the test and only when it
  passed, with the parameters that were tested. When the test rejects the parameters,
  the call returns no value, raises \<^verbatim>\<open>scrypt.error\<close> with the message about wrong
  parameters, never calls \<^verbatim>\<open>crypto_scrypt\<close>, and frees the buffer. A call that does
  not return is one of two: the parser stored past \<^verbatim>\<open>r\<close> or \<^verbatim>\<open>p\<close>, before anything
  else happened; or the test passed and the library wrote more than the 64 bytes it was
  given.
\<close>

theorem hash_test_after_allocation_before_library:
  "(fits_int (h_password a) \<and> fits_int (h_salt a) \<longrightarrow>
     (case scrypt_hash3 dm env (Some a) st of
        Normal (v, s) \<Rightarrow>
          k_store_fits dm a \<and>
          trace s = trace st @ [Malloc 64, GuardTest] @
            (if paramerror (given (2 ^ 14) (h_N a)) (given 8 (h_r a)) (given 1 (h_p a)) \<noteq> 0
             then [Free]
             else [Call_crypto_scrypt (given (2 ^ 14) (h_N a)) (given 8 (h_r a)) (given 1 (h_p a)),
                   Free]) \<and>
          (paramerror (given (2 ^ 14) (h_N a)) (given 8 (h_r a)) (given 1 (h_p a)) \<noteq> 0 \<longrightarrow>
             v = None \<and> err s = Some (ScryptError (Some hash_params_msg)))
      | Fault f \<Rightarrow>
          (if k_store_fits dm a
           then f = BufferOverflow \<and>
             paramerror (given (2 ^ 14) (h_N a)) (given 8 (h_r a)) (given 1 (h_p a)) = 0
           else f = StorePastObject))) \<and>
   (case scrypt_hash2 dm env (Some a) st of
      Normal (v, s) \<Rightarrow>
        k_store_fits dm a \<and>
        trace s = trace st @ [Malloc 64, GuardTest] @
          (if paramerror (given 1024 (h_N a)) (given 1 (h_r a)) (given 1 (h_p a)) \<noteq> 0
           then [Free]
           else [Call_crypto_scrypt (given 1024 (h_N a)) (given 1 (h_r a)) (given 1 (h_p a)),
                 Free]) \<and>
        (paramerror (given 1024 (h_N a)) (given 1 (h_r a)) (given 1 (h_p a)) \<noteq> 0 \<longrightarrow>
           v = None \<and> err s = Some (ScryptError (Some hash_params_msg)))
    | Fault f \<Rightarrow>
        (if k_store_fits dm a
         then f = BufferOverflow \<and>
           paramerror (given 1024 (h_N a)) (given 1 (h_r a)) (given 1 (h_p a)) = 0
         else f = StorePastObject))"
  using hash3_order [where a = a and dm = dm and env = env and st = st]
    hash2_order [where a = a and dm = dm and env = env and st = st]
  by blast

text \<open>
  The amended claim on the call \<^verbatim>\<open>hash(password, salt, N=3)\<close>, where 3 is not a power
  of two, on the data model with a 64-bit \<^verbatim>\<open>unsigned long\<close>: \<^verbatim>\<open>r\<close> and \<^verbatim>\<open>p\<close> are not
  passed and keep the defaults of each file.
\<close>

theorem hash_test_after_allocation_before_library_witness:
  "fits_int (h_password (hash_call [0x70] [0x73] (Some 3) None None)) \<and>
   fits_int (h_salt (hash_call [0x70] [0x73] (Some 3) None None)) \<and>
   k_store_fits LP64 (hash_call [0x70] [0x73] (Some 3) None None) \<and>
   paramerror 3 8 1 = - 1 \<and>
   paramerror 3 1 1 = - 1 \<and>
   (case scrypt_hash3 LP64 demo_prims (Some (hash_call [0x70] [0x73] (Some 3) None None)) st0 of
      Normal (v, s) \<Rightarrow>
        trace s = [Malloc 64, GuardTest, Free] \<and> v = None \<and>
        err s = Some (ScryptError (Some hash_params_msg))
    | Fault f \<Rightarrow> False) \<and>
   (case scrypt_hash2 LP64 demo_prims (Some (hash_call [0x70] [0x73] (Some 3) None None)) st0 of
      Normal (v, s) \<Rightarrow>
        trace s = [Malloc 64, GuardTest, Free] \<and> v = None \<and>
        err s = Some (ScryptError (Some hash_params_msg))
    | Fault f \<Rightarrow> False)"
proof -
  let ?a = "hash_call [0x70] [0x73] (Some 3) None None"
  have f: "fits_int (h_password ?a) \<and> fits_int (h_salt ?a)"
    by (simp add: hash_call_def fits_int_def INT_MAX_def)
  have k: "k_store_fits LP64 ?a"
    by (simp add: hash_call_def k_store_fits_def)
  have p: "paramerror 3 8 1 = - 1" "paramerror 3 1 1 = - 1"
    by (simp_all add: paramerror_def word_le_nat_alt)
  from hash_test_after_allocation_before_library
         [where a = ?a and dm = LP64 and env = demo_prims and st = st0] f k p
  show ?thesis
    by (simp add: hash_call_def given_def st0_def split: outcome.splits prod.splits)
qed

text \<open>
  Claim C5 as stated fails: the parameter test does not come before the allocation.
  For \<^verbatim>\<open>hash(password, salt, N=3)\<close> the events of the call are the allocation, the
  test, and the release, in this order, in both modules and on every data model.
\<close>

theorem hash_allocates_before_test_counterexample:
  "scrypt_hash3 LP64 demo_prims (Some (hash_call [0x70] [0x73] (Some 3) None None)) st0 =
     Normal (None,
       \<lparr>err = Some (ScryptError (Some hash_params_msg)), trace = [Malloc 64, GuardTest, Free]\<rparr>) \<and>
   scrypt_hash2 LP64 demo_prims (Some (hash_call [0x70] [0x73] (Some 3) None None)) st0 =
     Normal (None,
       \<lparr>err = Some (ScryptError (Some hash_params_msg)), trace = [Malloc 64, GuardTest, Free]\<rparr>) \<and>
   scrypt_hash3 ILP32 demo_prims (Some (hash_call [0x70] [0x73] (Some 3) None None)) st0 =
     Normal (None,
       \<lparr>err = Some (ScryptError (Some hash_params_msg)), trace = [Malloc 64, GuardTest, Free]\<rparr>) \<and>
   scrypt_hash2 ILP32 demo_prims (Some (hash_call [0x70] [0x73] (Some 3) None None)) st0 =
     Normal (None,
       \<lparr>err = Some (ScryptError (Some hash_params_msg)), trace = [Malloc 64, GuardTest, Free]\<rparr>)"
  by (simp add: scrypt_hash3_def scrypt_hash2_def eval_defs)

subsection \<open>Lengths of the results\<close>

lemma hash3_length:
  "scrypt_hash3 dm env args st = Normal (Some v, s) \<Longrightarrow> \<exists>bs. v = PyBytes bs \<and> length bs = 64"
  by (auto simp: scrypt_hash3_def call_defs Let_def
      split: option.splits prod.splits outcome.splits if_splits)

lemma hash2_length:
  "scrypt_hash2 dm env args st = Normal (Some v, s) \<Longrightarrow> \<exists>bs. v = PyBytes bs \<and> length bs = 64"
  by (auto simp: scrypt_hash2_def call_defs Let_def
      split: option.splits prod.splits outcome.splits if_splits)

text \<open>
  Claim C6. Whenever \<^verbatim>\<open>hash\<close> returns a value, in either module, on any data model
  and for any library,
  the value is a byte string of exactly 64 bytes.
\<close>

theorem hash_returns_64_bytes:
  "(scrypt_hash3 dm env args st = Normal (Some v, s) \<longrightarrow> (\<exists>bs. v = PyBytes bs \<and> length bs = 64)) \<and>
   (scrypt_hash2 dm env args st = Normal (Some v, s) \<longrightarrow> (\<exists>bs. v = PyBytes bs \<and> length bs = 64))"
  using hash3_length hash2_length by blast

theorem hash_returns_64_bytes_witness:
  "scrypt_hash3 LP64 demo_prims (Some (hash_call [0x70] [0x73] None None None)) st0 =
     Normal (Some (PyBytes (replicate 64 0x5A)),
       \<lparr>err = None, trace = [Malloc 64, GuardTest, Call_crypto_scrypt 16384 8 1, Free]\<rparr>) \<and>
   scrypt_hash2 LP64 demo_prims (Some (hash_call [0x70] [0x73] None None None)) st0 =
     Normal (Some (PyBytes (replicate 64 0x5A)),
       \<lparr>err = None, trace = [Malloc 64, GuardTest, Call_crypto_scrypt 1024 1 1, Free]\<rparr>) \<and>
   (\<exists>bs. PyBytes (replicate 64 0x5A) = PyBytes bs \<and> length bs = 64)"
proof -
  let ?args = "Some (hash_call [0x70] [0x73] None None None)"
  let ?s3 = "\<lparr>err = None, trace = [Malloc 64, GuardTest, Call_crypto_scrypt 16384 8 1, Free]\<rparr>"
  let ?s2 = "\<lparr>err = None, trace = [Malloc 64, GuardTest, Call_crypto_scrypt 1024 1 1, Free]\<rparr>"
  have h3: "scrypt_hash3 LP64 demo_prims ?args st0 = Normal (Some (PyBytes (replicate 64 0x5A)), ?s3)"
    by (simp add: scrypt_hash3_def eval_defs)
  have h2: "scrypt_hash2 LP64 demo_prims ?args st0 = Normal (Some (PyBytes (replicate 64 0x5A)), ?s2)"
    by (simp add: scrypt_hash2_def eval_defs)
  from hash_returns_64_bytes [where dm = LP64 and env = demo_prims and args = ?args and st = st0
      and v = "PyBytes (replicate 64 0x5A)" and s = ?s3] h3
  have "\<exists>bs. PyBytes (replicate 64 0x5A) = PyBytes bs \<and> length bs = 64"
    by blast
  with h3 h2 show ?thesis by blast
qed








subsection \<open>The length reported by \<^verbatim>\<open>scryptdec_buf\<close>\<close>

lemma decrypt2_value_only_on_success:
  "scrypt_decrypt2 env (Some a) st = Normal (Some v, s) \<Longrightarrow> fst (dec_call env a) = 0"
  by (auto simp: scrypt_decrypt2_def dec_call_def call_defs Let_def
      split: option.splits prod.splits outcome.splits if_splits)

lemma decrypt3_value_only_on_success:
  "scrypt_decrypt3 env (Some a) st = Normal (Some v, s) \<Longrightarrow> fst (dec_call env a) = 0"
  by (auto simp: scrypt_decrypt3_def dec_call_def call_defs Let_def
      split: option.splits prod.splits outcome.splits if_splits)

lemma decrypt2_returns_prefix:
  assumes "dec_call env a = (0, out, n)"
    and "length out \<le> length (input a)"
    and "0 \<le> va_int n" and "nat (va_int n) \<le> length (input a)"
  shows "scrypt_decrypt2 env (Some a) st =
    Normal (Some (PyBytes (take (nat (va_int n)) (outbuf_after env (length (input a)) out))),
      st\<lparr>trace := trace st @ [Malloc (length (input a)), Call_scryptdec_buf, Free]\<rparr>)"
  using assms
  by (simp add: scrypt_decrypt2_def dec_call_def outbuf_after_def call_defs Let_def)

lemma decrypt3_returns_prefix:
  assumes "fits_int (input a)" and "fits_int (password a)"
    and "dec_call env a = (0, out, n)"
    and "length out \<le> length (input a)"
    and "0 \<le> va_int n" and "nat (va_int n) \<le> length (input a)"
  shows "scrypt_decrypt3 env (Some a) st =
    (case utf8_decode (take (nat (va_int n)) (outbuf_after env (length (input a)) out)) of
       Some u \<Rightarrow>
         Normal (Some (PyUnicode u),
           st\<lparr>trace := trace st @ [Malloc (length (input a)), Call_scryptdec_buf, Free]\<rparr>)
     | None \<Rightarrow>
         Normal (None,
           st\<lparr>err := Some UnicodeDecodeError,
              trace := trace st @ [Malloc (length (input a)), Call_scryptdec_buf, Free]\<rparr>))"
  using assms
  by (simp add: scrypt_decrypt3_def dec_call_def outbuf_after_def call_defs Let_def
      split: option.splits)

lemma decrypt2_unchecked:
  "dec_call env a = (0, out, n) \<Longrightarrow> length out \<le> length (input a) \<Longrightarrow>
   int (length (input a)) < va_int n \<Longrightarrow>
     scrypt_decrypt2 env (Some a) st = Fault BufferOverread"
  by (simp add: scrypt_decrypt2_def dec_call_def call_defs Let_def)

lemma decrypt3_unchecked:
  "fits_int (input a) \<Longrightarrow> fits_int (password a) \<Longrightarrow>
   dec_call env a = (0, out, n) \<Longrightarrow> length out \<le> length (input a) \<Longrightarrow>
   int (length (input a)) < va_int n \<Longrightarrow>
     scrypt_decrypt3 env (Some a) st = Fault BufferOverread"
  by (simp add: scrypt_decrypt3_def dec_call_def call_defs Let_def)

text \<open>
  Claim C8, as amended. \<^verbatim>\<open>decrypt\<close> returns a value only when the library returned
  code 0. Let the library return code 0, having written inside the buffer, and report
  the length \<open>n\<close>; let \<open>m\<close> be \<open>n\<close> as \<^verbatim>\<open>Py_BuildValue\<close> reads it, through an
  \<^verbatim>\<open>int\<close>. When \<open>0 \<le> m \<le> len(ciphertext)\<close>, the call returns exactly the first \<open>m\<close>
  bytes of the buffer: as a byte string in the Python 2 module; decoded as UTF-8 into
  a text string in the Python 3 module, or \<^verbatim>\<open>UnicodeDecodeError\<close> when they are not
  UTF-8. The wrapper never compares the length with the capacity: when \<open>m\<close> is above
  \<open>len(ciphertext)\<close>, it raises no error and reads \<open>m\<close> bytes, past the end of the
  buffer.
\<close>

theorem decrypt_returns_reported_prefix_unchecked:
  "(scrypt_decrypt2 env (Some a) st = Normal (Some v, s) \<longrightarrow> fst (dec_call env a) = 0) \<and>
   (scrypt_decrypt3 env (Some a) st = Normal (Some v, s) \<longrightarrow> fst (dec_call env a) = 0) \<and>
   (dec_call env a = (0, out, n) \<and> length out \<le> length (input a) \<and>
    0 \<le> va_int n \<and> nat (va_int n) \<le> length (input a) \<longrightarrow>
      scrypt_decrypt2 env (Some a) st =
        Normal (Some (PyBytes (take (nat (va_int n)) (outbuf_after env (length (input a)) out))),
          st\<lparr>trace := trace st @ [Malloc (length (input a)), Call_scryptdec_buf, Free]\<rparr>) \<and>
      (fits_int (input a) \<and> fits_int (password a) \<longrightarrow>
         scrypt_decrypt3 env (Some a) st =
           (case utf8_decode (take (nat (va_int n)) (outbuf_after env (length (input a)) out)) of
              Some u \<Rightarrow>
                Normal (Some (PyUnicode u),
                  st\<lparr>trace := trace st @ [Malloc (length (input a)), Call_scryptdec_buf, Free]\<rparr>)
            | None \<Rightarrow>
                Normal (None,
                  st\<lparr>err := Some UnicodeDecodeError,
                     trace := trace st @ [Malloc (length (input a)), Call_scryptdec_buf, Free]\<rparr>)))) \<and>
   (dec_call env a = (0, out, n) \<and> length out \<le> length (input a) \<and>
    int (length (input a)) < va_int n \<longrightarrow>
      scrypt_decrypt2 env (Some a) st = Fault BufferOverread \<and>
      (fits_int (input a) \<and> fits_int (password a) \<longrightarrow>
         scrypt_decrypt3 env (Some a) st = Fault BufferOverread))"
  using decrypt2_value_only_on_success [where env = env and a = a and st = st and v = v and s = s]
    decrypt3_value_only_on_success [where env = env and a = a and st = st and v = v and s = s]
    decrypt2_returns_prefix [where env = env and a = a and st = st and out = out and n = n]
    decrypt3_returns_prefix [where env = env and a = a and st = st and out = out and n = n]
    decrypt2_unchecked [where env = env and a = a and st = st and out = out and n = n]
    decrypt3_unchecked [where env = env and a = a and st = st and out = out and n = n]
  by blast

text \<open>
  The amended claim on a three-byte input: a library that writes \<^verbatim>\<open>hi\<close> and reports
  the length \<open>2 ^ 32 + 2\<close>, which is read as 2; and a library that writes nothing and
  reports the length 4.
\<close>

theorem decrypt_returns_reported_prefix_unchecked_witness:
  "va_int (2 ^ 32 + 2) = 2 \<and>
   dec_call (demo_prims\<lparr>scryptdec_buf := \<lambda>inbuf passwd mm mf mt. (0, [0x68, 0x69], 2 ^ 32 + 2)\<rparr>)
       (plain [1, 2, 3] [0x6B]) = (0, [0x68, 0x69], 2 ^ 32 + 2) \<and>
   scrypt_decrypt2
       (demo_prims\<lparr>scryptdec_buf := \<lambda>inbuf passwd mm mf mt. (0, [0x68, 0x69], 2 ^ 32 + 2)\<rparr>)
       (Some (plain [1, 2, 3] [0x6B])) st0 =
     Normal (Some (PyBytes [0x68, 0x69]),
       \<lparr>err = None, trace = [Malloc 3, Call_scryptdec_buf, Free]\<rparr>) \<and>
   scrypt_decrypt3
       (demo_prims\<lparr>scryptdec_buf := \<lambda>inbuf passwd mm mf mt. (0, [0x68, 0x69], 2 ^ 32 + 2)\<rparr>)
       (Some (plain [1, 2, 3] [0x6B])) st0 =
     Normal (Some (PyUnicode [104, 105]),
       \<lparr>err = None, trace = [Malloc 3, Call_scryptdec_buf, Free]\<rparr>) \<and>
   va_int 4 = 4 \<and>
   dec_call (demo_prims\<lparr>scryptdec_buf := \<lambda>inbuf passwd mm mf mt. (0, [], 4)\<rparr>)
       (plain [1, 2, 3] [0x6B]) = (0, [], 4) \<and>
   scrypt_decrypt2 (demo_prims\<lparr>scryptdec_buf := \<lambda>inbuf passwd mm mf mt. (0, [], 4)\<rparr>)
       (Some (plain [1, 2, 3] [0x6B])) st0 = Fault BufferOverread \<and>
   scrypt_decrypt3 (demo_prims\<lparr>scryptdec_buf := \<lambda>inbuf passwd mm mf mt. (0, [], 4)\<rparr>)
       (Some (plain [1, 2, 3] [0x6B])) st0 = Fault BufferOverread"
proof -
  let ?a = "plain [1, 2, 3] [0x6B]"
  let ?ok = "demo_prims\<lparr>scryptdec_buf := \<lambda>inbuf passwd mm mf mt. (0, [0x68, 0x69], 2 ^ 32 + 2)\<rparr>"
  let ?bad = "demo_prims\<lparr>scryptdec_buf := \<lambda>inbuf passwd mm mf mt. (0, [], 4)\<rparr>"
  have v: "va_int (2 ^ 32 + 2) = 2" "va_int 4 = 4"
    by (simp_all add: va_int_def)
  have d1: "dec_call ?ok ?a = (0, [0x68, 0x69], 2 ^ 32 + 2)"
    by (simp add: dec_call_def plain_def)
  have d2: "dec_call ?bad ?a = (0, [], 4)"
    by (simp add: dec_call_def plain_def)
  have pre: "fits_int (input ?a)" "fits_int (password ?a)"
    "length [0x68, 0x69 :: byte] \<le> length (input ?a)" "length ([] :: byte list) \<le> length (input ?a)"
    "0 \<le> va_int (2 ^ 32 + 2)" "nat (va_int (2 ^ 32 + 2)) \<le> length (input ?a)"
    "int (length (input ?a)) < va_int 4"
    by (simp_all add: va_int_def plain_def fits_int_def INT_MAX_def)
  have t: "take (nat (va_int (2 ^ 32 + 2))) (outbuf_after ?ok (length (input ?a)) [0x68, 0x69])
      = [0x68, 0x69]"
    by (simp add: va_int_def outbuf_after_def plain_def)
  have l: "length (input ?a) = 3"
    by (simp add: plain_def)
  have u: "utf8_decode [0x68, 0x69] = Some [104, 105]"
    by simp
  from decrypt_returns_reported_prefix_unchecked
         [where env = ?ok and a = ?a and st = st0 and out = "[0x68, 0x69]" and n = "2 ^ 32 + 2"]
       d1 pre
  have "scrypt_decrypt2 ?ok (Some ?a) st0 =
          Normal (Some (PyBytes (take (nat (va_int (2 ^ 32 + 2)))
                           (outbuf_after ?ok (length (input ?a)) [0x68, 0x69]))),
            st0\<lparr>trace := trace st0 @ [Malloc (length (input ?a)), Call_scryptdec_buf, Free]\<rparr>)"
    and "scrypt_decrypt3 ?ok (Some ?a) st0 =
          (case utf8_decode (take (nat (va_int (2 ^ 32 + 2)))
                               (outbuf_after ?ok (length (input ?a)) [0x68, 0x69])) of
             Some u \<Rightarrow>
               Normal (Some (PyUnicode u),
                 st0\<lparr>trace := trace st0 @ [Malloc (length (input ?a)), Call_scryptdec_buf, Free]\<rparr>)
           | None \<Rightarrow>
               Normal (None,
                 st0\<lparr>err := Some UnicodeDecodeError,
                    trace := trace st0 @ [Malloc (length (input ?a)), Call_scryptdec_buf, Free]\<rparr>))"
    by blast+
  then have ok2: "scrypt_decrypt2 ?ok (Some ?a) st0 =
          Normal (Some (PyBytes [0x68, 0x69]),
            \<lparr>err = None, trace = [Malloc 3, Call_scryptdec_buf, Free]\<rparr>)"
    and ok3: "scrypt_decrypt3 ?ok (Some ?a) st0 =
          Normal (Some (PyUnicode [104, 105]),
            \<lparr>err = None, trace = [Malloc 3, Call_scryptdec_buf, Free]\<rparr>)"
    unfolding t by (simp_all add: l u st0_def)
  from decrypt_returns_reported_prefix_unchecked
         [where env = ?bad and a = ?a and st = st0 and out = "[]" and n = 4] d2 pre
  have "scrypt_decrypt2 ?bad (Some ?a) st0 = Fault BufferOverread"
    and "scrypt_decrypt3 ?bad (Some ?a) st0 = Fault BufferOverread"
    by blast+
  with v d1 d2 ok2 ok3 show ?thesis by blast
qed

text \<open>
  Claim C8 as stated fails: nothing validates the reported length. With a library that
  returns code 0 and reports one byte more than the buffer holds, neither module raises
  an error; both go on to build the value from bytes past the end of the buffer.
\<close>

theorem decrypt_length_not_validated_counterexample:
  "scrypt_decrypt3
       (demo_prims\<lparr>scryptdec_buf := \<lambda>inbuf passwd mm mf mt. (0, [], length inbuf + 1)\<rparr>)
       (Some (plain [1, 2, 3] [0x6B])) st0 = Fault BufferOverread \<and>
   scrypt_decrypt2
       (demo_prims\<lparr>scryptdec_buf := \<lambda>inbuf passwd mm mf mt. (0, [], length inbuf + 1)\<rparr>)
       (Some (plain [1, 2, 3] [0x6B])) st0 = Fault BufferOverread"
  by (simp add: scrypt_decrypt3_def scrypt_decrypt2_def eval_defs)

subsection \<open>Release of the output buffer\<close>

lemma encrypt3_released:
  "scrypt_encrypt3 env args st = Normal (v, s) \<Longrightarrow> released_once (call_events st s)"
  by (auto simp: scrypt_encrypt3_def call_defs Let_def released_once_def call_events_def
      split: option.splits prod.splits outcome.splits if_splits)

lemma encrypt2_released:
  "scrypt_encrypt2 env args st = Normal (v, s) \<Longrightarrow> released_once (call_events st s)"
  by (auto simp: scrypt_encrypt2_def call_defs Let_def released_once_def call_events_def
      split: option.splits prod.splits outcome.splits if_splits)

lemma decrypt3_released:
  "scrypt_decrypt3 env args st = Normal (v, s) \<Longrightarrow> released_once (call_events st s)"
  by (auto simp: scrypt_decrypt3_def call_defs Let_def released_once_def call_events_def
      split: option.splits prod.splits outcome.splits if_splits)

lemma decrypt2_released:
  "scrypt_decrypt2 env args st = Normal (v, s) \<Longrightarrow> released_once (call_events st s)"
  by (auto simp: scrypt_decrypt2_def call_defs Let_def released_once_def call_events_def
      split: option.splits prod.splits outcome.splits if_splits)

lemma hash3_released:
  "scrypt_hash3 dm env hargs st = Normal (v, s) \<Longrightarrow> released_once (call_events st s)"
  by (auto simp: scrypt_hash3_def call_defs Let_def released_once_def call_events_def
      split: option.splits prod.splits outcome.splits if_splits)

lemma hash2_released:
  "scrypt_hash2 dm env hargs st = Normal (v, s) \<Longrightarrow> released_once (call_events st s)"
  by (auto simp: scrypt_hash2_def call_defs Let_def released_once_def call_events_def
      split: option.splits prod.splits outcome.splits if_splits)

text \<open>
  Claim C9. Every call of \<^verbatim>\<open>encrypt\<close>, \<^verbatim>\<open>decrypt\<close> or \<^verbatim>\<open>hash\<close> that returns, in
  either module, on any data model, for any library and any arguments, with a value or with an exception
  set (refused arguments, a library error, rejected cost parameters, a decoding error
  while the value is built), allocates at most one buffer and frees it exactly once,
  after the allocation: no leak and no double free.
\<close>

theorem buffer_released_exactly_once:
  "(scrypt_encrypt3 env args st = Normal (v, s) \<longrightarrow> released_once (call_events st s)) \<and>
   (scrypt_encrypt2 env args st = Normal (v, s) \<longrightarrow> released_once (call_events st s)) \<and>
   (scrypt_decrypt3 env args st = Normal (v, s) \<longrightarrow> released_once (call_events st s)) \<and>
   (scrypt_decrypt2 env args st = Normal (v, s) \<longrightarrow> released_once (call_events st s)) \<and>
   (scrypt_hash3 dm env hargs st = Normal (v, s) \<longrightarrow> released_once (call_events st s)) \<and>
   (scrypt_hash2 dm env hargs st = Normal (v, s) \<longrightarrow> released_once (call_events st s))"
  by (intro conjI impI)
    (erule encrypt3_released encrypt2_released decrypt3_released decrypt2_released
       hash3_released hash2_released)+

text \<open>
  One call on each exit path: \<^verbatim>\<open>encrypt\<close> succeeding, \<^verbatim>\<open>encrypt\<close> with a library
  error, \<^verbatim>\<open>decrypt\<close> with a decoding error, \<^verbatim>\<open>decrypt\<close> succeeding, \<^verbatim>\<open>hash\<close> with
  rejected parameters, \<^verbatim>\<open>hash\<close> succeeding.
\<close>

theorem buffer_released_exactly_once_witness:
  "scrypt_encrypt3 demo_prims (Some (plain [1, 2, 3] [0x6B])) st0 =
     Normal (Some (PyBytes (replicate 96 0 @ [1, 2, 3] @ replicate 32 0)),
       \<lparr>err = None, trace = [Malloc 132, Call_scryptenc_buf, Free]\<rparr>) \<and>
   released_once [Malloc 132, Call_scryptenc_buf, Free] \<and>
   scrypt_encrypt2 (demo_prims\<lparr>scryptenc_buf := \<lambda>inbuf passwd mm mf mt. (6, [])\<rparr>)
       (Some (plain [1, 2, 3] [0x6B])) st0 =
     Normal (None,
       \<lparr>err = Some (ScryptError None), trace = [Malloc 132, Call_scryptenc_buf, Free]\<rparr>) \<and>
   scrypt_decrypt3 (demo_prims\<lparr>scryptdec_buf := \<lambda>inbuf passwd mm mf mt. (0, [0xFF], 1)\<rparr>)
       (Some (plain [1, 2, 3] [0x6B])) st0 =
     Normal (None,
       \<lparr>err = Some UnicodeDecodeError, trace = [Malloc 3, Call_scryptdec_buf, Free]\<rparr>) \<and>
   released_once [Malloc 3, Call_scryptdec_buf, Free] \<and>
   scrypt_decrypt2 (demo_prims\<lparr>scryptdec_buf := \<lambda>inbuf passwd mm mf mt. (0, [0xFF], 1)\<rparr>)
       (Some (plain [1, 2, 3] [0x6B])) st0 =
     Normal (Some (PyBytes [0xFF]),
       \<lparr>err = None, trace = [Malloc 3, Call_scryptdec_buf, Free]\<rparr>) \<and>
   scrypt_hash3 LP64 demo_prims (Some (hash_call [0x70] [0x73] (Some 3) None None)) st0 =
     Normal (None,
       \<lparr>err = Some (ScryptError (Some hash_params_msg)), trace = [Malloc 64, GuardTest, Free]\<rparr>) \<and>
   released_once [Malloc 64, GuardTest, Free] \<and>
   scrypt_hash2 LP64 demo_prims (Some (hash_call [0x70] [0x73] None None None)) st0 =
     Normal (Some (PyBytes (replicate 64 0x5A)),
       \<lparr>err = None, trace = [Malloc 64, GuardTest, Call_crypto_scrypt 1024 1 1, Free]\<rparr>) \<and>
   released_once [Malloc 64, GuardTest, Call_crypto_scrypt 1024 1 1, Free]"
proof -
  let ?a = "Some (plain [1, 2, 3] [0x6B])"
  let ?e6 = "demo_prims\<lparr>scryptenc_buf := \<lambda>inbuf passwd mm mf mt. (6, [])\<rparr>"
  let ?dff = "demo_prims\<lparr>scryptdec_buf := \<lambda>inbuf passwd mm mf mt. (0, [0xFF], 1)\<rparr>"
  let ?se = "\<lparr>err = None, trace = [Malloc 132, Call_scryptenc_buf, Free]\<rparr>"
  let ?se' = "\<lparr>err = Some (ScryptError None), trace = [Malloc 132, Call_scryptenc_buf, Free]\<rparr>"
  let ?sd = "\<lparr>err = Some UnicodeDecodeError, trace = [Malloc 3, Call_scryptdec_buf, Free]\<rparr>"
  let ?sd' = "\<lparr>err = None, trace = [Malloc 3, Call_scryptdec_buf, Free]\<rparr>"
  let ?h3 = "Some (hash_call [0x70] [0x73] (Some 3) None None)"
  let ?sh = "\<lparr>err = Some (ScryptError (Some hash_params_msg)), trace = [Malloc 64, GuardTest, Free]\<rparr>"
  let ?h2 = "Some (hash_call [0x70] [0x73] None None None)"
  let ?sh' = "\<lparr>err = None, trace = [Malloc 64, GuardTest, Call_crypto_scrypt 1024 1 1, Free]\<rparr>"
  have e3: "scrypt_encrypt3 demo_prims ?a st0 =
      Normal (Some (PyBytes (replicate 96 0 @ [1, 2, 3] @ replicate 32 0)), ?se)"
    by (simp add: scrypt_encrypt3_def eval_defs)
  have e2: "scrypt_encrypt2 ?e6 ?a st0 = Normal (None, ?se')"
    by (simp add: scrypt_encrypt2_def eval_defs)
  have d3: "scrypt_decrypt3 ?dff ?a st0 = Normal (None, ?sd)"
    by (simp add: scrypt_decrypt3_def eval_defs)
  have d2: "scrypt_decrypt2 ?dff ?a st0 = Normal (Some (PyBytes [0xFF]), ?sd')"
    by (simp add: scrypt_decrypt2_def eval_defs)
  have h3: "scrypt_hash3 LP64 demo_prims ?h3 st0 = Normal (None, ?sh)"
    by (simp add: scrypt_hash3_def eval_defs)
  have h2: "scrypt_hash2 LP64 demo_prims ?h2 st0 = Normal (Some (PyBytes (replicate 64 0x5A)), ?sh')"
    by (simp add: scrypt_hash2_def eval_defs)
  have r1: "released_once (call_events st0 ?se)"
    using buffer_released_exactly_once [where env = demo_prims and args = ?a and st = st0 and s = ?se] e3
    by blast
  have r2: "released_once (call_events st0 ?sd)"
    using buffer_released_exactly_once [where env = ?dff and args = ?a and st = st0 and s = ?sd] d3
    by blast
  have r3: "released_once (call_events st0 ?sh)"
    using buffer_released_exactly_once [where dm = LP64 and env = demo_prims and hargs = ?h3 and st = st0 and s = ?sh] h3
    by blast
  have r4: "released_once (call_events st0 ?sh')"
    using buffer_released_exactly_once [where dm = LP64 and env = demo_prims and hargs = ?h2 and st = st0 and s = ?sh'] h2
    by blast
  from r1 r2 r3 r4 have "released_once [Malloc 132, Call_scryptenc_buf, Free]"
    and "released_once [Malloc 3, Call_scryptdec_buf, Free]"
    and "released_once [Malloc 64, GuardTest, Free]"
    and "released_once [Malloc 64, GuardTest, Call_crypto_scrypt 1024 1 1, Free]"
    by (simp_all add: call_events_def st0_def)
  with e3 e2 d3 d2 h3 h2 show ?thesis by blast
qed

subsection \<open>Determinism of \<^verbatim>\<open>hash\<close>\<close>

lemma hash3_same:
  assumes same: "crypto_scrypt env' = crypto_scrypt env"
    and fills: "\<And>pw salt N r p. fst (crypto_scrypt env pw salt N r p 64) = 0 \<Longrightarrow>
                  64 \<le> length (snd (crypto_scrypt env pw salt N r p 64))"
  shows "scrypt_hash3 dm env' hargs st = scrypt_hash3 dm env hargs st"
proof (cases hargs)
  case None
  then show ?thesis by (simp add: scrypt_hash3_def)
next
  case (Some a)
  let ?N = "given (2 ^ 14) (h_N a)" and ?r = "given 8 (h_r a)" and ?p = "given 1 (h_p a)"
  obtain rc out where co: "crypto_scrypt env (h_password a) (h_salt a) ?N ?r ?p 64 = (rc, out)"
    by (cases "crypto_scrypt env (h_password a) (h_salt a) ?N ?r ?p 64")
  have "rc = 0 \<Longrightarrow> 64 \<le> length out"
    using fills [of "h_password a" "h_salt a" ?N ?r ?p] co by simp
  then show ?thesis
    using Some co same
    by (auto simp: scrypt_hash3_def call_defs Let_def)
qed

lemma hash2_same:
  assumes same: "crypto_scrypt env' = crypto_scrypt env"
    and fills: "\<And>pw salt N r p. fst (crypto_scrypt env pw salt N r p 64) = 0 \<Longrightarrow>
                  64 \<le> length (snd (crypto_scrypt env pw salt N r p 64))"
  shows "scrypt_hash2 dm env' hargs st = scrypt_hash2 dm env hargs st"
proof (cases hargs)
  case None
  then show ?thesis by (simp add: scrypt_hash2_def)
next
  case (Some a)
  let ?N = "given 1024 (h_N a)" and ?r = "given 1 (h_r a)" and ?p = "given 1 (h_p a)"
  obtain rc out where co: "crypto_scrypt env (h_password a) (h_salt a) ?N ?r ?p 64 = (rc, out)"
    by (cases "crypto_scrypt env (h_password a) (h_salt a) ?N ?r ?p 64")
  have "rc = 0 \<Longrightarrow> 64 \<le> length out"
    using fills [of "h_password a" "h_salt a" ?N ?r ?p] co by simp
  then show ?thesis
    using Some co same
    by (auto simp: scrypt_hash2_def call_defs Let_def)
qed

text \<open>
  Claim C10. \<^verbatim>\<open>hash\<close> is a function of its arguments and of the derivation function
  alone. Take two runs in environments that agree on \<^verbatim>\<open>crypto_scrypt\<close> (a deterministic
  function that, when it returns 0, fills the 64 bytes it was asked for) and may differ
  in everything else: the contents of fresh memory and the encryption functions, the
  only ones that draw a random salt. For equal arguments and equal incoming state both
  runs, on the same data model, give the same result in either module: the same 64 bytes, or the same exception
  and message.
\<close>

theorem hash_deterministic:
  assumes "crypto_scrypt env' = crypto_scrypt env"
    and "\<And>pw salt N r p. fst (crypto_scrypt env pw salt N r p 64) = 0 \<Longrightarrow>
           64 \<le> length (snd (crypto_scrypt env pw salt N r p 64))"
  shows "scrypt_hash3 dm env' hargs st = scrypt_hash3 dm env hargs st \<and>
         scrypt_hash2 dm env' hargs st = scrypt_hash2 dm env hargs st"
  using hash3_same [OF assms] hash2_same [OF assms] by blast

text \<open>
  The stand-in library against a copy with other fresh memory and an encryption function
  that fails.
\<close>

theorem hash_deterministic_witness:
  "crypto_scrypt (demo_prims\<lparr>scryptenc_buf := \<lambda>inbuf passwd mm mf mt. (4, []), uninit := \<lambda>i. 0\<rparr>)
     = crypto_scrypt demo_prims \<and>
   (\<forall>pw salt N r p. length (snd (crypto_scrypt demo_prims pw salt N r p 64)) = 64) \<and>
   scrypt_hash3 LP64 (demo_prims\<lparr>scryptenc_buf := \<lambda>inbuf passwd mm mf mt. (4, []), uninit := \<lambda>i. 0\<rparr>)
       (Some (hash_call [0x70] [0x73] None None None)) st0 =
     scrypt_hash3 LP64 demo_prims (Some (hash_call [0x70] [0x73] None None None)) st0 \<and>
   scrypt_hash2 LP64 (demo_prims\<lparr>scryptenc_buf := \<lambda>inbuf passwd mm mf mt. (4, []), uninit := \<lambda>i. 0\<rparr>)
       (Some (hash_call [0x70] [0x73] None None None)) st0 =
     scrypt_hash2 LP64 demo_prims (Some (hash_call [0x70] [0x73] None None None)) st0 \<and>
   scrypt_hash3 LP64 demo_prims (Some (hash_call [0x70] [0x73] None None None)) st0 =
     Normal (Some (PyBytes (replicate 64 0x5A)),
       \<lparr>err = None, trace = [Malloc 64, GuardTest, Call_crypto_scrypt 16384 8 1, Free]\<rparr>)"
proof -
  let ?env' = "demo_prims\<lparr>scryptenc_buf := \<lambda>inbuf passwd mm mf mt. (4, []), uninit := \<lambda>i. 0\<rparr>"
  let ?h = "Some (hash_call [0x70] [0x73] None None None)"
  have same: "crypto_scrypt ?env' = crypto_scrypt demo_prims"
    by simp
  have len: "\<forall>pw salt N r p. length (snd (crypto_scrypt demo_prims pw salt N r p 64)) = 64"
    by (simp add: demo_prims_def)
  then have fills: "\<And>pw salt N r p. fst (crypto_scrypt demo_prims pw salt N r p 64) = 0 \<Longrightarrow>
      64 \<le> length (snd (crypto_scrypt demo_prims pw salt N r p 64))"
    by simp
  have v: "scrypt_hash3 LP64 demo_prims ?h st0 =
      Normal (Some (PyBytes (replicate 64 0x5A)),
        \<lparr>err = None, trace = [Malloc 64, GuardTest, Call_crypto_scrypt 16384 8 1, Free]\<rparr>)"
    by (simp add: scrypt_hash3_def eval_defs)
  from hash_deterministic [OF same fills, where dm = LP64 and hargs = ?h and st = st0] same len v
  show ?thesis by blast
qed

end
